theory Spec2Isabelle
  imports Main
begin

section \<open>The training harness of framework.py\<close>

text \<open>
  The class \<open>ModelFramework\<close> of \<^verbatim>\<open>aidd_codebase/framework/framework.py\<close> is
  embedded as a record of its attributes and one HOL function per method. A method that
  assigns attributes takes the object and returns the updated one. The classes it
  imports (the choice registries, \<open>Metric\<close>, \<open>Scheduler\<close>, the loggers, the base
  class) are not part of the file, so their operations are parameters of the functions
  that call them. The exceptions modelled are the ones the expressions of this file
  raise themselves: the lookup of an attribute an object does not have, and the lookup
  of a key a dictionary does not hold. What a registry raises for a name it does not
  know is whatever the registry parameter returns, and the base class's optimizer step
  is a parameter that returns or raises; every other call into an imported class is
  taken to return.
\<close>

subsection \<open>Values and errors\<close>

datatype error = AttributeError string | KeyError string | OtherError string

text \<open>
  An attribute that the annotations type as \<open>Optional[str]\<close> but that the methods use
  as an object: it holds \<open>None\<close>, a string, or an instance of the class \<open>'a\<close>.
\<close>

datatype 'a py_val = PyNone | PyStr string | PyObj 'a

text \<open>
  Truth value testing (\<open>if v:\<close>): \<open>None\<close> and the empty string are false, any other
  string is true; for an instance the class decides (\<open>bool_of\<close>).
\<close>

fun truthy :: "('a \<Rightarrow> bool) \<Rightarrow> 'a py_val \<Rightarrow> bool" where
  "truthy bool_of PyNone = False"
| "truthy bool_of (PyStr s) = (s \<noteq> [])"
| "truthy bool_of (PyObj x) = bool_of x"

text \<open>
  \<open>v.name\<close> for a method \<open>name\<close> that \<open>None\<close> and strings do not have. Whether an
  instance has it is its class's business: \<open>has_attr name x\<close> says so.
\<close>

fun method_of :: "(string \<Rightarrow> 'a \<Rightarrow> bool) \<Rightarrow> string \<Rightarrow> 'a py_val \<Rightarrow> error + 'a" where
  "method_of has_attr name PyNone = Inl (AttributeError name)"
| "method_of has_attr name (PyStr s) = Inl (AttributeError name)"
| "method_of has_attr name (PyObj x) =
     (if has_attr name x then Inr x else Inl (AttributeError name))"

text \<open>A decimal literal \<open>m\<close>e\<open>k\<close> of the source, kept as written: \<open>(m, k)\<close>.\<close>

type_synonym decimal = "int \<times> int"

text \<open>
  The key of a metrics dictionary: a string, or a tuple of strings.
\<close>

datatype mkey = KStr string | KTuple "string list"

text \<open>\<open>LogitLoss(f)\<close> wraps a loss function.\<close>

datatype 'lf LogitLoss = LogitLoss 'lf

subsection \<open>The imported classes\<close>

text \<open>
  What \<open>__init__\<close> calls: the three registries (\<open>get_choice\<close> returns a class, here
  its constructor, or raises), \<open>ParameterInitialization(method=m).initialize_model\<close>,
  and \<open>model.parameters()\<close>. A loss class is called with \<open>reduction\<close> and
  \<open>ignore_index\<close>, an optimizer class with the parameters, \<open>lr\<close>, \<open>betas\<close>, \<open>eps\<close>.
\<close>

record ('ma, 'm, 'lf, 'p, 'o) environment =
  ModelChoice_get_choice :: "string \<Rightarrow> error + ('ma \<Rightarrow> 'm)"
  initialize_model :: "string \<Rightarrow> 'm \<Rightarrow> 'm"
  LossChoice_get_choice :: "string \<Rightarrow> error + (string \<Rightarrow> int \<Rightarrow> 'lf)"
  OptimizerChoice_get_choice ::
    "string \<Rightarrow> error + ('p \<Rightarrow> decimal \<Rightarrow> decimal \<times> decimal \<Rightarrow> decimal \<Rightarrow> 'o)"
  parameters :: "'m \<Rightarrow> 'p"

subsection \<open>The object\<close>

text \<open>\<open>save_hyperparameters()\<close> keeps the constructor's arguments.\<close>

record 'ma hparams =
  hp_model :: string
  hp_model_args :: 'ma
  hp_loss :: string
  hp_optimizer :: string
  hp_metrics :: "string list option"
  hp_scheduler :: "string option"
  hp_pl_loggers :: "string list option"
  hp_initialize_model :: "string option"

text \<open>
  The attributes. The three \<open>_imported\<close> attributes exist only once assigned: \<open>None\<close>
  is the absent attribute. \<open>'f\<close> is the type of loop callables.
\<close>

record ('ma, 'm, 'lf, 'o, 's, 'g, 'f, 'mt) ModelFramework =
  hparams :: "'ma hparams"
  model :: 'm
  loss :: "'lf LogitLoss"
  metrics :: "string list option"
  optimizer :: 'o
  scheduler :: "'s py_val"
  pl_loggers :: "'g py_val list option"
  metrics_list :: "string \<rightharpoonup> (mkey \<rightharpoonup> 'mt)"
  training_step_imported :: "'f option"
  validation_step_imported :: "'f option"
  test_step_imported :: "'f option"

text \<open>An \<open>Optional[str]\<close> argument as an attribute value.\<close>

fun of_name :: "string option \<Rightarrow> 'a py_val" where
  "of_name None = PyNone"
| "of_name (Some n) = PyStr n"

text \<open>\<open>__init__\<close> (lines 17 to 54).\<close>

definition init ::
  "('ma, 'm, 'lf, 'p, 'o) environment \<Rightarrow> string \<Rightarrow> 'ma \<Rightarrow> string \<Rightarrow> string \<Rightarrow>
   string list option \<Rightarrow> string option \<Rightarrow> string list option \<Rightarrow> string option \<Rightarrow>
   error + ('ma, 'm, 'lf, 'o, 's, 'g, 'f, 'mt) ModelFramework" where
  "init env model_name model_args loss_name optimizer_name metrics_arg scheduler_arg
        pl_loggers_arg initialize_model_arg =
     (case ModelChoice_get_choice env model_name of
        Inl e \<Rightarrow> Inl e
      | Inr model_class \<Rightarrow>
          let m0 = model_class model_args;
              m = (case initialize_model_arg of
                     None \<Rightarrow> m0
                   | Some meth \<Rightarrow> if meth \<noteq> [] then initialize_model env meth m0 else m0)
          in
          (case LossChoice_get_choice env loss_name of
             Inl e \<Rightarrow> Inl e
           | Inr loss_class \<Rightarrow>
               (case OptimizerChoice_get_choice env optimizer_name of
                  Inl e \<Rightarrow> Inl e
                | Inr optimizer_class \<Rightarrow>
                    Inr \<lparr> hparams =
                            \<lparr> hp_model = model_name, hp_model_args = model_args,
                              hp_loss = loss_name, hp_optimizer = optimizer_name,
                              hp_metrics = metrics_arg, hp_scheduler = scheduler_arg,
                              hp_pl_loggers = pl_loggers_arg,
                              hp_initialize_model = initialize_model_arg \<rparr>,
                          model = m,
                          loss = LogitLoss (loss_class ''mean'' 0),
                          metrics = metrics_arg,
                          optimizer =
                            optimizer_class (parameters env m) (1, - 4) ((9, - 1), (98, - 2))
                              (1, - 9),
                          scheduler = of_name scheduler_arg,
                          pl_loggers = map_option (map PyStr) pl_loggers_arg,
                          metrics_list = Map.empty,
                          training_step_imported = None,
                          validation_step_imported = None,
                          test_step_imported = None \<rparr>)))"

subsection \<open>Model and loop injection\<close>

definition set_model ::
  "'m \<Rightarrow> ('ma, 'm, 'lf, 'o, 's, 'g, 'f, 'mt) ModelFramework \<Rightarrow>
   ('ma, 'm, 'lf, 'o, 's, 'g, 'f, 'mt) ModelFramework" where
  "set_model m self = self\<lparr>model := m\<rparr>"

definition set_loop ::
  "'f \<Rightarrow> ('ma, 'm, 'lf, 'o, 's, 'g, 'f, 'mt) ModelFramework \<Rightarrow>
   ('ma, 'm, 'lf, 'o, 's, 'g, 'f, 'mt) ModelFramework" where
  "set_loop loop self =
     self\<lparr>training_step_imported := Some loop,
          validation_step_imported := Some loop,
          test_step_imported := Some loop\<rparr>"

text \<open>
  The three steps. \<open>call f self batch batch_idx stage\<close> is the call
  \<open>f(self, batch, batch_idx, stage=stage)\<close>; its result type \<open>'r\<close> is the callable's
  business.
\<close>

definition training_step ::
  "('f \<Rightarrow> ('ma, 'm, 'lf, 'o, 's, 'g, 'f, 'mt) ModelFramework \<Rightarrow> 'b \<Rightarrow> int \<Rightarrow> string \<Rightarrow> 'r) \<Rightarrow>
   ('ma, 'm, 'lf, 'o, 's, 'g, 'f, 'mt) ModelFramework \<Rightarrow> 'b \<Rightarrow> int \<Rightarrow> error + 'r" where
  "training_step call self batch batch_idx =
     (case training_step_imported self of
        None \<Rightarrow> Inl (AttributeError ''training_step_imported'')
      | Some f \<Rightarrow> Inr (call f self batch batch_idx ''train''))"

definition validation_step ::
  "('f \<Rightarrow> ('ma, 'm, 'lf, 'o, 's, 'g, 'f, 'mt) ModelFramework \<Rightarrow> 'b \<Rightarrow> int \<Rightarrow> string \<Rightarrow> 'r) \<Rightarrow>
   ('ma, 'm, 'lf, 'o, 's, 'g, 'f, 'mt) ModelFramework \<Rightarrow> 'b \<Rightarrow> int \<Rightarrow> error + 'r" where
  "validation_step call self batch batch_idx =
     (case validation_step_imported self of
        None \<Rightarrow> Inl (AttributeError ''validation_step_imported'')
      | Some f \<Rightarrow> Inr (call f self batch batch_idx ''validation''))"

definition test_step ::
  "('f \<Rightarrow> ('ma, 'm, 'lf, 'o, 's, 'g, 'f, 'mt) ModelFramework \<Rightarrow> 'b \<Rightarrow> int \<Rightarrow> string \<Rightarrow> 'r) \<Rightarrow>
   ('ma, 'm, 'lf, 'o, 's, 'g, 'f, 'mt) ModelFramework \<Rightarrow> 'b \<Rightarrow> int \<Rightarrow> error + 'r" where
  "test_step call self batch batch_idx =
     (case test_step_imported self of
        None \<Rightarrow> Inl (AttributeError ''test_step_imported'')
      | Some f \<Rightarrow> Inr (call f self batch batch_idx ''test''))"

text \<open>
  \<open>forward(*args, **kwargs)\<close>: \<open>call_model m args kwargs\<close> is the call
  \<open>m(*args, **kwargs)\<close>.
\<close>

definition forward ::
  "('m \<Rightarrow> 'v list \<Rightarrow> (string \<times> 'v) list \<Rightarrow> 'r) \<Rightarrow>
   ('ma, 'm, 'lf, 'o, 's, 'g, 'f, 'mt) ModelFramework \<Rightarrow> 'v list \<Rightarrow> (string \<times> 'v) list \<Rightarrow> 'r" where
  "forward call_model self args kwargs = call_model (model self) args kwargs"

subsection \<open>Optimizer and scheduler\<close>

text \<open>
  \<open>optimizer_step\<close> returns nothing and assigns nothing; what it does is the calls it
  makes, in order: the base class's step, then the scheduler's. The result is that
  sequence of calls, with the exception that ended it if one did. The base class's
  step is the parameter \<open>super_optimizer_step\<close>: it returns, or raises (on arguments it
  does not accept, for one), and then \<open>self.scheduler\<close> is not read.
\<close>

datatype ('v, 's) step_event =
  Super_optimizer_step "'v list" "(string \<times> 'v) list"
| Scheduler_step 's

definition optimizer_step ::
  "('v list \<Rightarrow> (string \<times> 'v) list \<Rightarrow> error + unit) \<Rightarrow> (string \<Rightarrow> 's \<Rightarrow> bool) \<Rightarrow>
   ('s \<Rightarrow> bool) \<Rightarrow> 'v list \<Rightarrow> (string \<times> 'v) list \<Rightarrow>
   ('ma, 'm, 'lf, 'o, 's, 'g, 'f, 'mt) ModelFramework \<Rightarrow>
   ('v, 's) step_event list \<times> (error + unit)" where
  "optimizer_step super_optimizer_step has_attr bool_of args kwargs self =
     (let made = [Super_optimizer_step args kwargs] in
      case super_optimizer_step args kwargs of
        Inl e \<Rightarrow> (made, Inl e)
      | Inr u \<Rightarrow>
          if truthy bool_of (scheduler self) then
            (case method_of has_attr ''step'' (scheduler self) of
               Inl e \<Rightarrow> (made, Inl e)
             | Inr s \<Rightarrow> (made @ [Scheduler_step s], Inr ()))
          else (made, Inr ()))"

text \<open>
  \<open>configure_optimizers\<close>: \<open>set_optimizer s opt\<close> is what \<open>s.set_optimizer(opt)\<close>
  returns. The result is the returned optimizer and the updated object.
\<close>

definition configure_optimizers ::
  "(string \<Rightarrow> 's \<Rightarrow> bool) \<Rightarrow> ('s \<Rightarrow> bool) \<Rightarrow> ('s \<Rightarrow> 'o \<Rightarrow> 's py_val) \<Rightarrow>
   ('ma, 'm, 'lf, 'o, 's, 'g, 'f, 'mt) ModelFramework \<Rightarrow>
   error + 'o \<times> ('ma, 'm, 'lf, 'o, 's, 'g, 'f, 'mt) ModelFramework" where
  "configure_optimizers has_attr bool_of set_optimizer self =
     (let opt = optimizer self in
      if truthy bool_of (scheduler self) then
        (case method_of has_attr ''set_optimizer'' (scheduler self) of
           Inl e \<Rightarrow> Inl e
         | Inr s \<Rightarrow> Inr (opt, self\<lparr>scheduler := set_optimizer s opt\<rparr>))
      else Inr (opt, self))"

subsection \<open>Metric bookkeeping\<close>

definition get_loss_key :: "string \<Rightarrow> string" where
  "get_loss_key stage =
     (if stage = ''train'' then ''loss''
      else if stage = ''validation'' then ''val_loss''
      else ''test_loss'')"

text \<open>A dictionary comprehension \<open>{k: f(k) for k in ks}\<close>: later keys overwrite.\<close>

definition dict_comp :: "('k \<Rightarrow> 'v) \<Rightarrow> 'k list \<Rightarrow> ('k \<rightharpoonup> 'v)" where
  "dict_comp f ks = foldl (\<lambda>d k. d(k \<mapsto> f k)) Map.empty ks"

text \<open>
  The list the comprehension of \<open>_init_metrics\<close> runs over (line 98): one element, the
  tuple \<open>(loss_key, *self.metrics)\<close> when \<open>self.metrics\<close> is a non-empty list, the
  string \<open>loss_key\<close> otherwise.
\<close>

definition metric_keys :: "string list option \<Rightarrow> string \<Rightarrow> mkey list" where
  "metric_keys ms loss_key =
     [case ms of
        None \<Rightarrow> KStr loss_key
      | Some names \<Rightarrow> if names \<noteq> [] then KTuple (loss_key # names) else KStr loss_key]"

text \<open>\<open>_init_metrics\<close>; \<open>new_metric\<close> is the object \<open>Metric()\<close> constructs.\<close>

definition init_metrics ::
  "'mt \<Rightarrow> string \<Rightarrow> ('ma, 'm, 'lf, 'o, 's, 'g, 'f, 'mt) ModelFramework \<Rightarrow>
   ('ma, 'm, 'lf, 'o, 's, 'g, 'f, 'mt) ModelFramework" where
  "init_metrics new_metric stage self =
     (let loss_key = get_loss_key stage in
      self\<lparr>metrics_list :=
        (metrics_list self)
          (stage \<mapsto> dict_comp (\<lambda>k. new_metric) (metric_keys (metrics self) loss_key))\<rparr>)"

definition on_train_start ::
  "'mt \<Rightarrow> ('ma, 'm, 'lf, 'o, 's, 'g, 'f, 'mt) ModelFramework \<Rightarrow>
   ('ma, 'm, 'lf, 'o, 's, 'g, 'f, 'mt) ModelFramework" where
  "on_train_start new_metric self = init_metrics new_metric ''train'' self"

definition on_training_epoch_start ::
  "'mt \<Rightarrow> ('ma, 'm, 'lf, 'o, 's, 'g, 'f, 'mt) ModelFramework \<Rightarrow>
   ('ma, 'm, 'lf, 'o, 's, 'g, 'f, 'mt) ModelFramework" where
  "on_training_epoch_start new_metric self = init_metrics new_metric ''train'' self"

definition on_validation_epoch_start ::
  "'mt \<Rightarrow> ('ma, 'm, 'lf, 'o, 's, 'g, 'f, 'mt) ModelFramework \<Rightarrow>
   ('ma, 'm, 'lf, 'o, 's, 'g, 'f, 'mt) ModelFramework" where
  "on_validation_epoch_start new_metric self = init_metrics new_metric ''validation'' self"

definition on_test_epoch_start ::
  "'mt \<Rightarrow> ('ma, 'm, 'lf, 'o, 's, 'g, 'f, 'mt) ModelFramework \<Rightarrow>
   ('ma, 'm, 'lf, 'o, 's, 'g, 'f, 'mt) ModelFramework" where
  "on_test_epoch_start new_metric self = init_metrics new_metric ''test'' self"

subsection \<open>Forwarding to the loggers\<close>

text \<open>
  One call \<open>logger.log_scalar(metrics=d, epoch=n)\<close>. The epoch-end hooks return
  nothing and assign nothing: their result is the calls made, in order, and the
  exception that ended them if one did.
\<close>

datatype ('g, 'mt) log_event = Log_scalar 'g "mkey \<Rightarrow> 'mt option" int

text \<open>The loop of \<open>_log_epoch_metrics\<close> (lines 123 and 124).\<close>

fun log_scalar_each ::
  "(string \<Rightarrow> 'g \<Rightarrow> bool) \<Rightarrow> 'g py_val list \<Rightarrow> (mkey \<rightharpoonup> 'mt) \<Rightarrow> int \<Rightarrow>
   ('g, 'mt) log_event list \<times> (error + unit)" where
  "log_scalar_each has_attr [] d epoch = ([], Inr ())"
| "log_scalar_each has_attr (logger # rest) d epoch =
     (case method_of has_attr ''log_scalar'' logger of
        Inl e \<Rightarrow> ([], Inl e)
      | Inr g \<Rightarrow>
          (case log_scalar_each has_attr rest d epoch of
             (events, r) \<Rightarrow> (Log_scalar g d epoch # events, r)))"

text \<open>
  \<open>_log_epoch_metrics\<close>; \<open>current_epoch\<close> is the base class's property of that name.
\<close>

definition log_epoch_metrics ::
  "(string \<Rightarrow> 'g \<Rightarrow> bool) \<Rightarrow> int \<Rightarrow> (mkey \<rightharpoonup> 'mt) \<Rightarrow>
   ('ma, 'm, 'lf, 'o, 's, 'g, 'f, 'mt) ModelFramework \<Rightarrow>
   ('g, 'mt) log_event list \<times> (error + unit)" where
  "log_epoch_metrics has_attr current_epoch d self =
     (case pl_loggers self of
        None \<Rightarrow> ([], Inr ())
      | Some loggers \<Rightarrow>
          if loggers \<noteq> [] then log_scalar_each has_attr loggers d current_epoch
          else ([], Inr ()))"

text \<open>\<open>self.metrics_list[stage]\<close>: a missing key raises.\<close>

definition metrics_of ::
  "('ma, 'm, 'lf, 'o, 's, 'g, 'f, 'mt) ModelFramework \<Rightarrow> string \<Rightarrow> error + (mkey \<rightharpoonup> 'mt)" where
  "metrics_of self stage =
     (case metrics_list self stage of None \<Rightarrow> Inl (KeyError stage) | Some d \<Rightarrow> Inr d)"

definition training_epoch_end ::
  "(string \<Rightarrow> 'g \<Rightarrow> bool) \<Rightarrow> int \<Rightarrow> 'out list \<Rightarrow>
   ('ma, 'm, 'lf, 'o, 's, 'g, 'f, 'mt) ModelFramework \<Rightarrow>
   ('g, 'mt) log_event list \<times> (error + unit)" where
  "training_epoch_end has_attr current_epoch outputs self =
     (case metrics_of self ''train'' of
        Inl e \<Rightarrow> ([], Inl e)
      | Inr d \<Rightarrow> log_epoch_metrics has_attr current_epoch d self)"

definition validation_epoch_end ::
  "(string \<Rightarrow> 'g \<Rightarrow> bool) \<Rightarrow> int \<Rightarrow> 'out list \<Rightarrow>
   ('ma, 'm, 'lf, 'o, 's, 'g, 'f, 'mt) ModelFramework \<Rightarrow>
   ('g, 'mt) log_event list \<times> (error + unit)" where
  "validation_epoch_end has_attr current_epoch outputs self =
     (case metrics_of self ''validation'' of
        Inl e \<Rightarrow> ([], Inl e)
      | Inr d \<Rightarrow> log_epoch_metrics has_attr current_epoch d self)"

definition test_epoch_end ::
  "(string \<Rightarrow> 'g \<Rightarrow> bool) \<Rightarrow> int \<Rightarrow> 'out list \<Rightarrow>
   ('ma, 'm, 'lf, 'o, 's, 'g, 'f, 'mt) ModelFramework \<Rightarrow>
   ('g, 'mt) log_event list \<times> (error + unit)" where
  "test_epoch_end has_attr current_epoch outputs self =
     (case metrics_of self ''test'' of
        Inl e \<Rightarrow> ([], Inl e)
      | Inr d \<Rightarrow> log_epoch_metrics has_attr current_epoch d self)"

subsection \<open>Sequences of calls\<close>

text \<open>
  The methods of the class that assign an attribute, \<open>set_loop\<close> apart. The others
  (\<open>forward\<close>, \<open>optimizer_step\<close>, the three steps, the batch-end and epoch-end hooks)
  assign none. A call that raises leaves the object as it was.
\<close>

datatype 'm other_call =
  Set_model 'm
| Configure_optimizers
| Init_metrics string
| On_train_start
| On_training_epoch_start
| On_validation_epoch_start
| On_test_epoch_start

fun after_call ::
  "(string \<Rightarrow> 's \<Rightarrow> bool) \<Rightarrow> ('s \<Rightarrow> bool) \<Rightarrow> ('s \<Rightarrow> 'o \<Rightarrow> 's py_val) \<Rightarrow> 'mt \<Rightarrow>
   ('ma, 'm, 'lf, 'o, 's, 'g, 'f, 'mt) ModelFramework \<Rightarrow> 'm other_call \<Rightarrow>
   ('ma, 'm, 'lf, 'o, 's, 'g, 'f, 'mt) ModelFramework" where
  "after_call has_attr bool_of set_optimizer new_metric self (Set_model m) = set_model m self"
| "after_call has_attr bool_of set_optimizer new_metric self Configure_optimizers =
     (case configure_optimizers has_attr bool_of set_optimizer self of
        Inl e \<Rightarrow> self
      | Inr (opt, self') \<Rightarrow> self')"
| "after_call has_attr bool_of set_optimizer new_metric self (Init_metrics stage) =
     init_metrics new_metric stage self"
| "after_call has_attr bool_of set_optimizer new_metric self On_train_start =
     on_train_start new_metric self"
| "after_call has_attr bool_of set_optimizer new_metric self On_training_epoch_start =
     on_training_epoch_start new_metric self"
| "after_call has_attr bool_of set_optimizer new_metric self On_validation_epoch_start =
     on_validation_epoch_start new_metric self"
| "after_call has_attr bool_of set_optimizer new_metric self On_test_epoch_start =
     on_test_epoch_start new_metric self"

definition after_calls ::
  "(string \<Rightarrow> 's \<Rightarrow> bool) \<Rightarrow> ('s \<Rightarrow> bool) \<Rightarrow> ('s \<Rightarrow> 'o \<Rightarrow> 's py_val) \<Rightarrow> 'mt \<Rightarrow>
   ('ma, 'm, 'lf, 'o, 's, 'g, 'f, 'mt) ModelFramework \<Rightarrow> 'm other_call list \<Rightarrow>
   ('ma, 'm, 'lf, 'o, 's, 'g, 'f, 'mt) ModelFramework" where
  "after_calls has_attr bool_of set_optimizer new_metric self calls =
     foldl (after_call has_attr bool_of set_optimizer new_metric) self calls"

subsection \<open>A small instance\<close>

text \<open>
  Registries that know every name and return the name as the object built, and the
  object \<open>__init__\<close> then constructs for model \<open>m\<close>, loss \<open>l\<close> and optimizer \<open>o\<close>.
  Schedulers, loggers and loop callables are numbered; a metric is its list of values.
  The instance is where the theorems below are applied to concrete objects.
\<close>

definition toy_env :: "(unit, string, string, string, string) environment" where
  "toy_env =
     \<lparr> ModelChoice_get_choice = (\<lambda>n. Inr (\<lambda>model_args. n)),
       initialize_model = (\<lambda>meth m. m),
       LossChoice_get_choice = (\<lambda>n. Inr (\<lambda>reduction ignore_index. n)),
       OptimizerChoice_get_choice = (\<lambda>n. Inr (\<lambda>params lr betas eps. n)),
       parameters = (\<lambda>m. m) \<rparr>"

definition toy_object ::
  "string list option \<Rightarrow> string option \<Rightarrow> string list option \<Rightarrow>
   (unit, string, string, string, nat, nat, nat, nat list) ModelFramework" where
  "toy_object ms sc pl =
     \<lparr> hparams =
         \<lparr> hp_model = ''m'', hp_model_args = (), hp_loss = ''l'', hp_optimizer = ''o'',
           hp_metrics = ms, hp_scheduler = sc, hp_pl_loggers = pl,
           hp_initialize_model = None \<rparr>,
       model = ''m'', loss = LogitLoss ''l'', metrics = ms, optimizer = ''o'',
       scheduler = of_name sc, pl_loggers = map_option (map PyStr) pl,
       metrics_list = Map.empty, training_step_imported = None,
       validation_step_imported = None, test_step_imported = None \<rparr>"

text \<open>
  A base class whose \<open>optimizer_step\<close> wants its three positional arguments (the
  epoch, the batch index and the optimizer) and raises \<open>TypeError\<close> without them.
\<close>

definition toy_super_optimizer_step ::
  "string list \<Rightarrow> (string \<times> string) list \<Rightarrow> error + unit" where
  "toy_super_optimizer_step args kwargs =
     (if length args < 3 then Inl (OtherError ''TypeError'') else Inr ())"

section \<open>Properties\<close>

subsection \<open>Auxiliary facts\<close>

lemma init_toy: "init toy_env ''m'' () ''l'' ''o'' ms sc pl None = Inr (toy_object ms sc pl)"
  by (simp add: init_def toy_env_def toy_object_def)

lemma init_scheduler:
  assumes "init env mn ma ln on ms sc pl im = Inr self"
  shows "scheduler self = of_name sc"
  using assms by (auto simp: init_def Let_def split: sum.splits)

lemma init_no_imported:
  assumes "init env mn ma ln on ms sc pl im = Inr self"
  shows "training_step_imported self = None \<and> validation_step_imported self = None \<and>
         test_step_imported self = None"
  using assms by (auto simp: init_def Let_def split: sum.splits)

text \<open>
  The model, the loss and the optimizer of a constructed object are what the classes
  found in the three registries build.
\<close>

lemma init_resolves_model_loss_optimizer:
  assumes "init env mn ma ln on ms sc pl im = Inr self"
  shows "\<exists>model_class loss_class optimizer_class.
           ModelChoice_get_choice env mn = Inr model_class \<and>
           LossChoice_get_choice env ln = Inr loss_class \<and>
           OptimizerChoice_get_choice env on = Inr optimizer_class \<and>
           model self =
             (case im of None \<Rightarrow> model_class ma
              | Some meth \<Rightarrow>
                  if meth \<noteq> [] then initialize_model env meth (model_class ma)
                  else model_class ma) \<and>
           loss self = LogitLoss (loss_class ''mean'' 0) \<and>
           optimizer self =
             optimizer_class (parameters env (model self)) (1, - 4) ((9, - 1), (98, - 2)) (1, - 9)"
  using assms by (auto simp: init_def Let_def split: sum.splits)

lemma dict_comp_single: "dict_comp f [k] = [k \<mapsto> f k]"
  by (simp add: dict_comp_def)

lemma metrics_list_init_metrics:
  "metrics_list (init_metrics mt s self) =
     (metrics_list self)(s \<mapsto> dict_comp (\<lambda>k. mt) (metric_keys (metrics self) (get_loss_key s)))"
  by (simp add: init_metrics_def)

lemma init_pl_loggers:
  assumes "init env mn ma ln on ms sc pl im = Inr self"
  shows "pl_loggers self = map_option (map PyStr) pl"
  using assms by (auto simp: init_def Let_def split: sum.splits)

text \<open>
  With a scheduler object that has the method, or with no scheduler, the two optimizer
  hooks run through; a base class's step that raises ends \<open>optimizer_step\<close>.
\<close>

lemma configure_optimizers_object:
  assumes "scheduler self = PyObj s" and "b s" and "ha ''set_optimizer'' s"
  shows "configure_optimizers ha b so self =
           Inr (optimizer self, self\<lparr>scheduler := so s (optimizer self)\<rparr>)"
  using assms by (simp add: configure_optimizers_def Let_def)

lemma configure_optimizers_falsy:
  assumes "\<not> truthy b (scheduler self)"
  shows "configure_optimizers ha b so self = Inr (optimizer self, self)"
  using assms by (simp add: configure_optimizers_def)

lemma optimizer_step_super_raises:
  assumes "base args kwargs = Inl e"
  shows "optimizer_step base ha b args kwargs self = ([Super_optimizer_step args kwargs], Inl e)"
  using assms by (simp add: optimizer_step_def)

lemma optimizer_step_object:
  assumes "base args kwargs = Inr ()" and "scheduler self = PyObj s" and "b s"
    and "ha ''step'' s"
  shows "optimizer_step base ha b args kwargs self =
           ([Super_optimizer_step args kwargs, Scheduler_step s], Inr ())"
  using assms by (simp add: optimizer_step_def)

lemma optimizer_step_falsy:
  assumes "base args kwargs = Inr ()" and "\<not> truthy b (scheduler self)"
  shows "optimizer_step base ha b args kwargs self =
           ([Super_optimizer_step args kwargs], Inr ())"
  using assms by (simp add: optimizer_step_def)

text \<open>
  The loop over loggers: objects that have \<open>log_scalar\<close> are each called once, in
  order; a name at the head of the list ends the loop before any call.
\<close>

lemma log_scalar_each_objects:
  assumes "\<forall>g \<in> set gs. ha ''log_scalar'' g"
  shows "log_scalar_each ha (map PyObj gs) d epoch =
           (map (\<lambda>g. Log_scalar g d epoch) gs, Inr ())"
  using assms by (induction gs) simp_all

lemma log_scalar_each_name:
  "log_scalar_each ha (PyStr n # rest) d epoch = ([], Inl (AttributeError ''log_scalar''))"
  by simp

text \<open>
  The epoch-end hooks: without an entry for the stage they raise before they look at
  the loggers; with an entry and no loggers they do nothing; with an entry and logger
  objects that have \<open>log_scalar\<close> they call each.
\<close>

lemma epoch_end_without_entry:
  assumes "(hook, stage) \<in> {(training_epoch_end, ''train''),
             (validation_epoch_end, ''validation''), (test_epoch_end, ''test'')}"
    and "metrics_list self stage = None"
  shows "hook ha epoch outputs self = ([], Inl (KeyError stage))"
  using assms
  by (auto simp: training_epoch_end_def validation_epoch_end_def test_epoch_end_def
      metrics_of_def)

lemma epoch_end_with_entry:
  assumes "(hook, stage) \<in> {(training_epoch_end, ''train''),
             (validation_epoch_end, ''validation''), (test_epoch_end, ''test'')}"
    and "metrics_list self stage = Some d"
  shows "hook ha epoch outputs self = log_epoch_metrics ha epoch d self"
  using assms
  by (auto simp: training_epoch_end_def validation_epoch_end_def test_epoch_end_def
      metrics_of_def)

lemma epoch_end_no_loggers:
  assumes "(hook, stage) \<in> {(training_epoch_end, ''train''),
             (validation_epoch_end, ''validation''), (test_epoch_end, ''test'')}"
    and "metrics_list self stage = Some d"
    and "pl_loggers self = None \<or> pl_loggers self = Some []"
  shows "hook ha epoch outputs self = ([], Inr ())"
  using assms(3) by (auto simp: epoch_end_with_entry [OF assms(1,2)] log_epoch_metrics_def)

lemma epoch_end_logger_objects:
  assumes "(hook, stage) \<in> {(training_epoch_end, ''train''),
             (validation_epoch_end, ''validation''), (test_epoch_end, ''test'')}"
    and "metrics_list self stage = Some d"
    and "pl_loggers self = Some (map PyObj gs)"
    and "\<forall>g \<in> set gs. ha ''log_scalar'' g"
  shows "hook ha epoch outputs self = (map (\<lambda>g. Log_scalar g d epoch) gs, Inr ())"
  using assms(3) log_scalar_each_objects [where ha = ha and gs = gs, OF assms(4)]
  by (auto simp: epoch_end_with_entry [OF assms(1,2)] log_epoch_metrics_def)

text \<open>No method other than \<open>set_loop\<close> assigns one of the three loop attributes.\<close>

lemma after_call_keeps_imported:
  "training_step_imported (after_call ha b so mt self c) = training_step_imported self \<and>
   validation_step_imported (after_call ha b so mt self c) = validation_step_imported self \<and>
   test_step_imported (after_call ha b so mt self c) = test_step_imported self"
  by (cases c)
    (auto simp: set_model_def configure_optimizers_def init_metrics_def on_train_start_def
      on_training_epoch_start_def on_validation_epoch_start_def on_test_epoch_start_def
      Let_def split: sum.splits)

lemma after_calls_keeps_imported:
  "training_step_imported (after_calls ha b so mt self cs) = training_step_imported self \<and>
   validation_step_imported (after_calls ha b so mt self cs) = validation_step_imported self \<and>
   test_step_imported (after_calls ha b so mt self cs) = test_step_imported self"
  unfolding after_calls_def
proof (induction cs arbitrary: self)
  case Nil
  show ?case by simp
next
  case (Cons c cs)
  show ?case
    using Cons.IH [of "after_call ha b so mt self c"]
      after_call_keeps_imported [of ha b so mt self c]
    by simp
qed

subsection \<open>Loop injection and forwarding\<close>

text \<open>
  C1. After \<open>set_loop(f)\<close>, each of the three steps returns the result of \<open>f\<close> called
  with the object, the batch, the batch index and the step's stage name: \<open>train\<close> for
  \<open>training_step\<close>, \<open>validation\<close> for \<open>validation_step\<close>, \<open>test\<close> for \<open>test_step\<close>.
\<close>

theorem set_loop_delegates:
  "training_step call (set_loop f self) batch batch_idx =
     Inr (call f (set_loop f self) batch batch_idx ''train'') \<and>
   validation_step call (set_loop f self) batch batch_idx =
     Inr (call f (set_loop f self) batch batch_idx ''validation'') \<and>
   test_step call (set_loop f self) batch batch_idx =
     Inr (call f (set_loop f self) batch batch_idx ''test'')"
  by (simp add: set_loop_def training_step_def validation_step_def test_step_def)

text \<open>
  C9. \<open>forward\<close> returns exactly what the model returns on the same positional and
  keyword arguments.
\<close>

theorem forward_delegates:
  "forward call_model self args kwargs = call_model (model self) args kwargs"
  by (simp add: forward_def)

text \<open>
  C10. On a constructed object, after any sequence of calls of the methods other than
  \<open>set_loop\<close>, each of the three steps raises \<open>AttributeError\<close> for its \<open>_imported\<close>
  attribute: \<open>__init__\<close> does not create the attributes and only \<open>set_loop\<close> assigns
  them.
\<close>

theorem steps_fail_before_set_loop:
  assumes "init env mn ma ln on ms sc pl im = Inr self"
  shows "training_step call (after_calls ha b so mt self cs) batch batch_idx =
           Inl (AttributeError ''training_step_imported'') \<and>
         validation_step call (after_calls ha b so mt self cs) batch batch_idx =
           Inl (AttributeError ''validation_step_imported'') \<and>
         test_step call (after_calls ha b so mt self cs) batch batch_idx =
           Inl (AttributeError ''test_step_imported'')"
  using init_no_imported [OF assms] after_calls_keeps_imported [of ha b so mt self cs]
  by (simp add: training_step_def validation_step_def test_step_def)

theorem steps_fail_before_set_loop_witness:
  "init toy_env ''m'' () ''l'' ''o'' None None None None = Inr (toy_object None None None) \<and>
   training_step (\<lambda>f self batch i stage. (f, batch, i, stage))
     (after_calls (\<lambda>name s. True) (\<lambda>s. True) (\<lambda>s opt. PyObj s) [] (toy_object None None None)
        [On_train_start, Configure_optimizers, Set_model ''n''])
     ''batch'' 0 = Inl (AttributeError ''training_step_imported'') \<and>
   validation_step (\<lambda>f self batch i stage. (f, batch, i, stage))
     (after_calls (\<lambda>name s. True) (\<lambda>s. True) (\<lambda>s opt. PyObj s) [] (toy_object None None None)
        [On_train_start, Configure_optimizers, Set_model ''n''])
     ''batch'' 0 = Inl (AttributeError ''validation_step_imported'') \<and>
   test_step (\<lambda>f self batch i stage. (f, batch, i, stage))
     (after_calls (\<lambda>name s. True) (\<lambda>s. True) (\<lambda>s opt. PyObj s) [] (toy_object None None None)
        [On_train_start, Configure_optimizers, Set_model ''n''])
     ''batch'' 0 = Inl (AttributeError ''test_step_imported'')"
  using init_toy [of None None None]
    steps_fail_before_set_loop [OF init_toy [of None None None]]
  by simp

subsection \<open>Metric bookkeeping\<close>

text \<open>
  C8. \<open>get_loss_key\<close> returns for every string: \<open>loss\<close> exactly for \<open>train\<close>,
  \<open>val_loss\<close> exactly for \<open>validation\<close>, and \<open>test_loss\<close> for every other string,
  whether or not it names a stage.
\<close>

theorem get_loss_key_cases:
  "(get_loss_key s = ''loss'') = (s = ''train'') \<and>
   (get_loss_key s = ''val_loss'') = (s = ''validation'') \<and>
   (get_loss_key s = ''test_loss'') = (s \<noteq> ''train'' \<and> s \<noteq> ''validation'')"
  by (simp add: get_loss_key_def)

text \<open>
  C5. Each start hook is \<open>_init_metrics\<close> of its stage (\<open>on_train_start\<close> and
  \<open>on_training_epoch_start\<close> of \<open>train\<close>, \<open>on_validation_epoch_start\<close> of
  \<open>validation\<close>, \<open>on_test_epoch_start\<close> of \<open>test\<close>). Afterwards the entry of that
  stage is a non-empty dictionary whose values are all the newly constructed metric,
  whatever the entry was before, and the entry of every other stage is what it was.
\<close>

theorem epoch_start_hooks_reset_own_stage:
  assumes "(hook, s) \<in> {(on_train_start, ''train''), (on_training_epoch_start, ''train''),
             (on_validation_epoch_start, ''validation''), (on_test_epoch_start, ''test'')}"
  shows "hook mt self = init_metrics mt s self \<and>
         (\<exists>d. metrics_list (hook mt self) s = Some d \<and> dom d \<noteq> {} \<and> ran d = {mt}) \<and>
         (\<forall>t. t \<noteq> s \<longrightarrow> metrics_list (hook mt self) t = metrics_list self t)"
proof -
  have hook: "hook mt self = init_metrics mt s self"
    using assms
    by (auto simp: on_train_start_def on_training_epoch_start_def
        on_validation_epoch_start_def on_test_epoch_start_def)
  have own: "\<exists>d. metrics_list (init_metrics mt s self) s = Some d \<and> dom d \<noteq> {} \<and> ran d = {mt}"
    by (simp add: metrics_list_init_metrics metric_keys_def dict_comp_single)
  have others: "\<forall>t. t \<noteq> s \<longrightarrow> metrics_list (init_metrics mt s self) t = metrics_list self t"
    by (simp add: metrics_list_init_metrics)
  from hook own others show ?thesis by simp
qed

text \<open>
  An object whose \<open>train\<close> entry holds a used metric: the validation hook gives
  \<open>validation\<close> a new metric and leaves the \<open>train\<close> entry alone.
\<close>

theorem epoch_start_hooks_reset_own_stage_witness:
  "(on_validation_epoch_start, ''validation'') \<in>
     {(on_train_start, ''train''), (on_training_epoch_start, ''train''),
      (on_validation_epoch_start, ''validation''), (on_test_epoch_start, ''test'')} \<and>
   on_validation_epoch_start [] (on_train_start [1] (toy_object None None None)) =
     init_metrics [] ''validation'' (on_train_start [1] (toy_object None None None)) \<and>
   metrics_list (on_validation_epoch_start [] (on_train_start [1] (toy_object None None None)))
       ''validation'' = Some [KStr ''val_loss'' \<mapsto> []] \<and>
   metrics_list (on_validation_epoch_start [] (on_train_start [1] (toy_object None None None)))
       ''train'' = Some [KStr ''loss'' \<mapsto> [1]]"
proof -
  let ?self = "on_train_start [1::nat] (toy_object None None None)"
  have mem: "(on_validation_epoch_start, ''validation'') \<in>
     {(on_train_start, ''train''), (on_training_epoch_start, ''train''),
      (on_validation_epoch_start, ''validation''), (on_test_epoch_start, ''test'')}"
    by simp
  note inst = epoch_start_hooks_reset_own_stage [OF mem, of "[]" ?self]
  have old: "metrics_list ?self ''train'' = Some [KStr ''loss'' \<mapsto> [1]]"
    by (simp add: on_train_start_def metrics_list_init_metrics toy_object_def metric_keys_def
        dict_comp_single get_loss_key_def)
  have new: "metrics_list (init_metrics [] ''validation'' ?self) ''validation'' =
      Some [KStr ''val_loss'' \<mapsto> []]"
    by (simp add: on_train_start_def init_metrics_def toy_object_def metric_keys_def
        dict_comp_single get_loss_key_def)
  have ne: "''train'' \<noteq> ''validation''"
    by simp
  note keep = inst [THEN conjunct2, THEN conjunct2, rule_format, of "''train''", OF ne]
  note hook = inst [THEN conjunct1]
  from mem hook old new keep show ?thesis by simp
qed

text \<open>
  C7. After \<open>_init_metrics(s)\<close> the dictionary \<open>metrics_list[s]\<close> has exactly one key:
  the loss key of \<open>s\<close> when \<open>self.metrics\<close> is \<open>None\<close> or empty, and otherwise the one
  tuple of the loss key followed by all the metric names.
\<close>

theorem init_metrics_single_key:
  "\<exists>d. metrics_list (init_metrics mt s self) s = Some d \<and> card (dom d) = 1 \<and>
     (metrics self = None \<or> metrics self = Some [] \<longrightarrow> dom d = {KStr (get_loss_key s)}) \<and>
     (\<forall>names. metrics self = Some names \<and> names \<noteq> [] \<longrightarrow>
        dom d = {KTuple (get_loss_key s # names)})"
  by (auto simp: metrics_list_init_metrics metric_keys_def dict_comp_single)

theorem init_metrics_single_key_witness:
  "(\<exists>d. metrics_list (init_metrics [0::nat] ''train'' (toy_object None None None)) ''train'' = Some d \<and>
      card (dom d) = 1 \<and> dom d = {KStr ''loss''}) \<and>
   (\<exists>d. metrics_list
          (init_metrics [0::nat] ''test'' (toy_object (Some [''acc'', ''f1'']) None None)) ''test'' =
          Some d \<and>
      card (dom d) = 1 \<and> dom d = {KTuple [''test_loss'', ''acc'', ''f1'']})"
  using init_metrics_single_key [of "[0::nat]" "''train''" "toy_object None None None"]
    init_metrics_single_key [of "[0::nat]" "''test''" "toy_object (Some [''acc'', ''f1'']) None None"]
  by (simp add: toy_object_def get_loss_key_def)

subsection \<open>The loggers given by name\<close>

text \<open>
  C6, as the code has it. The claim is that at the end of every training, validation
  and test epoch the stage's metrics and the epoch number are forwarded to every
  configured logger. On an object constructed with a non-empty list of logger names,
  at the end of an epoch whose start hook has run, nothing is forwarded: \<open>pl_loggers\<close>
  is that list of names, a string has no \<open>log_scalar\<close>, and the hook raises
  \<open>AttributeError\<close> at the first of them. (Without loggers, or with logger objects
  that have \<open>log_scalar\<close>, the hooks do what the claim says: \<open>epoch_end_no_loggers\<close>,
  \<open>epoch_end_logger_objects\<close>.)
\<close>

theorem epoch_end_named_loggers:
  assumes "init env mn ma ln on ms sc (Some (n # ns)) im = Inr self"
    and "(start, hook) \<in> {(on_train_start, training_epoch_end),
           (on_training_epoch_start, training_epoch_end),
           (on_validation_epoch_start, validation_epoch_end),
           (on_test_epoch_start, test_epoch_end)}"
  shows "hook ha epoch outputs (start mt self) = ([], Inl (AttributeError ''log_scalar''))"
proof -
  have pl: "pl_loggers self = Some (PyStr n # map PyStr ns)"
    using init_pl_loggers [OF assms(1)] by simp
  have "log_epoch_metrics ha epoch d (init_metrics mt stage self) =
      ([], Inl (AttributeError ''log_scalar''))" for d stage
    using pl by (simp add: log_epoch_metrics_def init_metrics_def)
  then show ?thesis
    using assms(2)
    by (auto simp: on_train_start_def on_training_epoch_start_def
        on_validation_epoch_start_def on_test_epoch_start_def training_epoch_end_def
        validation_epoch_end_def test_epoch_end_def metrics_of_def
        metrics_list_init_metrics)
qed

theorem epoch_end_named_loggers_witness:
  "init toy_env ''m'' () ''l'' ''o'' None None (Some [''tensorboard'']) None =
     Inr (toy_object None None (Some [''tensorboard''])) \<and>
   (on_validation_epoch_start, validation_epoch_end) \<in>
     {(on_train_start, training_epoch_end), (on_training_epoch_start, training_epoch_end),
      (on_validation_epoch_start, validation_epoch_end),
      (on_test_epoch_start, test_epoch_end)} \<and>
   validation_epoch_end (\<lambda>name g. True) 3 []
     (on_validation_epoch_start [] (toy_object None None (Some [''tensorboard'']))) =
     ([], Inl (AttributeError ''log_scalar''))"
proof -
  have mem: "(on_validation_epoch_start, validation_epoch_end) \<in>
     {(on_train_start, training_epoch_end), (on_training_epoch_start, training_epoch_end),
      (on_validation_epoch_start, validation_epoch_end),
      (on_test_epoch_start, test_epoch_end)}"
    by simp
  note made = init_toy [of None None "Some [''tensorboard'']"]
  note raised = epoch_end_named_loggers [OF made mem, of "\<lambda>name g. True" 3 "[]" "[]"]
  from made mem raised show ?thesis by simp
qed

subsection \<open>The scheduler given by name\<close>

text \<open>
  C2, as the code has it. The claim is that \<open>__init__\<close> resolves the model, the loss,
  the optimizer and the scheduler from their names, keeping none as a name. The first
  three are resolved (\<open>init_resolves_model_loss_optimizer\<close>); the scheduler is not: for
  every scheduler name \<open>n\<close>, the attribute \<open>scheduler\<close> of the constructed object is the
  string \<open>n\<close> itself.
\<close>

theorem init_keeps_scheduler_name:
  assumes "init env mn ma ln on ms (Some n) pl im = Inr self"
  shows "scheduler self = PyStr n"
  using init_scheduler [OF assms] by simp

theorem init_keeps_scheduler_name_witness:
  "init toy_env ''m'' () ''l'' ''o'' None (Some ''plateau'') None None =
     Inr (toy_object None (Some ''plateau'') None) \<and>
   scheduler (toy_object None (Some ''plateau'') None) = PyStr ''plateau''"
  using init_toy [of None "Some ''plateau''" None]
    init_keeps_scheduler_name [OF init_toy [of None "Some ''plateau''" None]]
  by simp

text \<open>
  C3, as the code has it. The claim is that \<open>configure_optimizers\<close> always returns the
  optimizer, after binding a configured scheduler to it. On an object constructed with
  a non-empty scheduler name it returns nothing: the name is true, a string has no
  \<open>set_optimizer\<close>, and the call raises \<open>AttributeError\<close>. (With a scheduler object or
  none it does what the claim says: \<open>configure_optimizers_object\<close>,
  \<open>configure_optimizers_falsy\<close>.)
\<close>

theorem configure_optimizers_named_scheduler:
  assumes "init env mn ma ln on ms (Some n) pl im = Inr self" and "n \<noteq> []"
  shows "configure_optimizers ha b so self = Inl (AttributeError ''set_optimizer'')"
  using init_scheduler [OF assms(1)] assms(2) by (simp add: configure_optimizers_def)

theorem configure_optimizers_named_scheduler_witness:
  "init toy_env ''m'' () ''l'' ''o'' None (Some ''plateau'') None None =
     Inr (toy_object None (Some ''plateau'') None) \<and> ''plateau'' \<noteq> [] \<and>
   configure_optimizers (\<lambda>name s. True) (\<lambda>s. True) (\<lambda>s opt. PyObj s)
       (toy_object None (Some ''plateau'') None) =
     Inl (AttributeError ''set_optimizer'')"
  using init_toy [of None "Some ''plateau''" None]
    configure_optimizers_named_scheduler [OF init_toy [of None "Some ''plateau''" None]]
  by simp

text \<open>
  C4, as the code has it. The claim is that \<open>optimizer_step\<close> performs the base class's
  step and then steps the scheduler once exactly when one is configured. On an object
  constructed with a non-empty scheduler name, a call whose base class's step returns
  makes that step and no other call: the name is true, a string has no \<open>step\<close>, and
  \<open>AttributeError\<close> is raised with no scheduler stepped. (With a scheduler object that
  has \<open>step\<close>, or with no scheduler, it does what the claim says:
  \<open>optimizer_step_object\<close>, \<open>optimizer_step_falsy\<close>.)
\<close>

theorem optimizer_step_named_scheduler:
  assumes "init env mn ma ln on ms (Some n) pl im = Inr self" and "n \<noteq> []"
    and "base args kwargs = Inr ()"
  shows "optimizer_step base ha b args kwargs self =
           ([Super_optimizer_step args kwargs], Inl (AttributeError ''step''))"
  using init_scheduler [OF assms(1)] assms(2,3) by (simp add: optimizer_step_def)

text \<open>
  The call \<open>optimizer_step(0, 0, optimizer)\<close>, which the base class of the instance
  accepts, on the object constructed with the scheduler name \<open>plateau\<close>.
\<close>

theorem optimizer_step_named_scheduler_witness:
  "init toy_env ''m'' () ''l'' ''o'' None (Some ''plateau'') None None =
     Inr (toy_object None (Some ''plateau'') None) \<and> ''plateau'' \<noteq> [] \<and>
   toy_super_optimizer_step [''0'', ''0'', ''o''] [] = Inr () \<and>
   optimizer_step toy_super_optimizer_step (\<lambda>name s. True) (\<lambda>s. True) [''0'', ''0'', ''o''] []
       (toy_object None (Some ''plateau'') None) =
     ([Super_optimizer_step [''0'', ''0'', ''o''] []], Inl (AttributeError ''step''))"
proof -
  note made = init_toy [of None "Some ''plateau''" None]
  have name: "''plateau'' \<noteq> []"
    by simp
  have accepted: "toy_super_optimizer_step [''0'', ''0'', ''o''] [] = Inr ()"
    by (simp add: toy_super_optimizer_step_def)
  note raised = optimizer_step_named_scheduler [where base = toy_super_optimizer_step
      and args = "[''0'', ''0'', ''o'']" and kwargs = "[]" and ha = "\<lambda>name s. True"
      and b = "\<lambda>s. True", OF made name accepted]
  from made name accepted raised show ?thesis by simp
qed

end
